theory Spec2Isabelle
  imports Complex_Main
begin

section \<open>Authentication and rate limiting of the road-safety API (api/auth.py)\<close>

text \<open>
  The embedding follows \<^verbatim>\<open>src/api/auth.py\<close>. The two module-level dictionaries
  (\<^verbatim>\<open>_rate_limit_store\<close>, \<^verbatim>\<open>_api_keys_cache\<close>) are passed in and returned; every
  reading of \<^verbatim>\<open>time.time()\<close> is an explicit argument, named after the place that reads
  it. Timestamps are rationals: every finite float is one, and the model adds and
  subtracts them exactly (the rounding of float addition is not modelled).
\<close>

subsection \<open>Numbers: a Python int or \<^verbatim>\<open>float('inf')\<close>\<close>

datatype pynum = PInt int | PInf

text \<open>\<^verbatim>\<open>limit - n\<close>, \<^verbatim>\<open>max(0, x)\<close> and \<^verbatim>\<open>n >= limit\<close> on such numbers.\<close>

fun num_sub :: "pynum \<Rightarrow> int \<Rightarrow> pynum" where
  "num_sub (PInt a) n = PInt (a - n)"
| "num_sub PInf n = PInf"

fun num_max0 :: "pynum \<Rightarrow> pynum" where
  "num_max0 (PInt a) = PInt (max 0 a)"
| "num_max0 PInf = PInf"

fun int_ge_num :: "int \<Rightarrow> pynum \<Rightarrow> bool" where
  "int_ge_num n (PInt a) = (n \<ge> a)"
| "int_ge_num n PInf = False"

text \<open>\<^verbatim>\<open>int(x)\<close> on a float truncates towards zero.\<close>

definition py_int :: "rat \<Rightarrow> int" where
  "py_int x = (if x \<ge> 0 then \<lfloor>x\<rfloor> else \<lceil>x\<rceil>)"

text \<open>\<^verbatim>\<open>d.get(k, default)\<close>.\<close>

definition dict_get :: "('k \<rightharpoonup> 'v) \<Rightarrow> 'k \<Rightarrow> 'v \<Rightarrow> 'v" where
  "dict_get d k dflt = (case d k of None \<Rightarrow> dflt | Some v \<Rightarrow> v)"

subsection \<open>Configuration\<close>

definition RATE_LIMIT_WINDOW :: int where
  "RATE_LIMIT_WINDOW = 3600"

definition RATE_LIMITS :: "string \<rightharpoonup> pynum" where
  "RATE_LIMITS = map_of
     [(''free'', PInt 100),
      (''developer'', PInt 5000),
      (''professional'', PInt 25000),
      (''unlimited'', PInf)]"

definition cache_ttl :: int where
  "cache_ttl = 300"

subsection \<open>The quota windows\<close>

record window =
  count :: int
  reset_at :: rat

type_synonym rate_limit_store = "string \<rightharpoonup> window"

text \<open>
  \<^verbatim>\<open>_rate_limit_store\<close> is a \<^verbatim>\<open>defaultdict\<close>: reading a missing key stores and returns
  \<^verbatim>\<open>{"count": 0, "reset_at": 0}\<close>.
\<close>

definition default_window :: window where
  "default_window = \<lparr>count = 0, reset_at = 0\<rparr>"

definition store_item :: "rate_limit_store \<Rightarrow> string \<Rightarrow> window" where
  "store_item st k = (case st k of None \<Rightarrow> default_window | Some w \<Rightarrow> w)"

text \<open>
  \<^verbatim>\<open>check_rate_limit(rate_limit_key, tier)\<close>; \<open>now\<close> is its reading of the clock. The
  result is \<^verbatim>\<open>(allowed, remaining, reset_at)\<close> and the store after the call.
\<close>

definition check_rate_limit ::
  "rat \<Rightarrow> string \<Rightarrow> string \<Rightarrow> rate_limit_store \<Rightarrow> (bool \<times> pynum \<times> int) \<times> rate_limit_store" where
  "check_rate_limit now rate_limit_key tier st =
     (let store0 = store_item st rate_limit_key;
          store = (if now > reset_at store0
                   then \<lparr>count = 0, reset_at = now + of_int RATE_LIMIT_WINDOW\<rparr>
                   else store0);
          limit = dict_get RATE_LIMITS tier (the (RATE_LIMITS ''free''));
          remaining = num_max0 (num_sub limit (count store))
      in if int_ge_num (count store) limit
         then ((False, PInt 0, py_int (reset_at store)), st(rate_limit_key \<mapsto> store))
         else ((True, num_sub remaining 1, py_int (reset_at store)),
               st(rate_limit_key \<mapsto> store\<lparr>count := count store + 1\<rparr>)))"

text \<open>
  A sequence of calls for one key and tier, one clock reading per call, each call
  starting from the store the previous one left.
\<close>

fun calls ::
  "rat list \<Rightarrow> string \<Rightarrow> string \<Rightarrow> rate_limit_store \<Rightarrow> (bool \<times> pynum \<times> int) list \<times> rate_limit_store" where
  "calls [] k tier st = ([], st)"
| "calls (t # ts) k tier st =
     (case check_rate_limit t k tier st of
        (r, st') \<Rightarrow> (case calls ts k tier st' of (rs, st'') \<Rightarrow> (r # rs, st'')))"

definition tier_limit :: "string \<Rightarrow> pynum" where
  "tier_limit tier = dict_get RATE_LIMITS tier (the (RATE_LIMITS ''free''))"

subsection \<open>Rendering numbers\<close>

text \<open>\<^verbatim>\<open>str(n)\<close> for an int, and for a number that may be \<^verbatim>\<open>inf\<close>.\<close>

fun str_nat :: "nat \<Rightarrow> string" where
  "str_nat n = (if n < 10 then [''0123456789'' ! n]
                else str_nat (n div 10) @ [''0123456789'' ! (n mod 10)])"

definition str_int :: "int \<Rightarrow> string" where
  "str_int i = (if i < 0 then CHR ''-'' # str_nat (nat (- i)) else str_nat (nat i))"

fun str_num :: "pynum \<Rightarrow> string" where
  "str_num (PInt i) = str_int i"
| "str_num PInf = ''inf''"

subsection \<open>Key resolution\<close>

text \<open>
  The dictionary returned by \<^verbatim>\<open>validate_api_key\<close>. \<^verbatim>\<open>"active"\<close> and \<^verbatim>\<open>"user_id"\<close> are not
  in every dictionary the module builds, so they are optional.
\<close>

record key_info =
  ki_key :: string
  ki_tier :: string
  ki_name :: string
  ki_active :: "bool option"
  ki_user_id :: "int option"

definition DEMO_API_KEYS :: "string \<rightharpoonup> (string \<times> string \<times> bool)" where
  "DEMO_API_KEYS = map_of
     [(''demo-key-free'', (''free'', ''Demo Free'', True)),
      (''demo-key-dev'', (''developer'', ''Demo Developer'', True)),
      (''demo-key-pro'', (''professional'', ''Demo Professional'', True)),
      (''admin-key-unlimited'', (''unlimited'', ''Admin'', True))]"

text \<open>
  The backing store, as the module sees it: whether \<^verbatim>\<open>get_db_engine()\<close> and
  \<^verbatim>\<open>engine.connect()\<close> succeed, and what each of the two \<^verbatim>\<open>SELECT\<close>s does for a key: it
  raises, or \<^verbatim>\<open>fetchone()\<close> gives a row or \<^verbatim>\<open>None\<close>. \<open>insert_ok\<close> is whether the
  \<^verbatim>\<open>INSERT\<close> and the commit of \<^verbatim>\<open>log_api_usage\<close> succeed.
\<close>

datatype 'row query_result = QueryError | FetchOne "'row option"

record database =
  connects :: bool
  users_table :: "string \<Rightarrow> (string \<times> string \<times> string \<times> bool \<times> int) query_result"
  api_keys_table :: "string \<Rightarrow> (string \<times> string \<times> string \<times> bool) query_result"
  insert_ok :: bool

type_synonym api_keys_cache = "string \<rightharpoonup> (key_info \<times> rat)"

text \<open>
  The \<^verbatim>\<open>try\<close> block of \<^verbatim>\<open>validate_api_key\<close> (lines 82 to 130): every exception inside
  it is caught and the function goes on to \<^verbatim>\<open>return None\<close>. \<open>t_store\<close> is the clock
  reading stored with a cache entry.
\<close>

definition validate_api_key_db ::
  "database \<Rightarrow> rat \<Rightarrow> api_keys_cache \<Rightarrow> string \<Rightarrow> key_info option \<times> api_keys_cache" where
  "validate_api_key_db db t_store cache api_key =
     (let cache_key = ''apikey_'' @ api_key in
      if \<not> connects db then (None, cache)
      else case users_table db api_key of
        QueryError \<Rightarrow> (None, cache)
      | FetchOne (Some (r0, r1, r2, r3, r4)) \<Rightarrow>
          (let key_info = \<lparr>ki_key = r0, ki_tier = r1, ki_name = r2,
                           ki_active = Some r3, ki_user_id = Some r4\<rparr>
           in (Some key_info, cache(cache_key \<mapsto> (key_info, t_store))))
      | FetchOne None \<Rightarrow>
          (case api_keys_table db api_key of
             QueryError \<Rightarrow> (None, cache)
           | FetchOne (Some (r0, r1, r2, r3)) \<Rightarrow>
               (let key_info = \<lparr>ki_key = r0, ki_tier = r1, ki_name = r2,
                                ki_active = Some r3, ki_user_id = None\<rparr>
                in (Some key_info, cache(cache_key \<mapsto> (key_info, t_store))))
           | FetchOne None \<Rightarrow> (None, cache)))"

text \<open>\<^verbatim>\<open>validate_api_key(api_key)\<close>; \<open>t_cache\<close> is the clock reading of the cache test.\<close>

definition validate_api_key ::
  "database \<Rightarrow> rat \<Rightarrow> rat \<Rightarrow> api_keys_cache \<Rightarrow> string \<Rightarrow> key_info option \<times> api_keys_cache" where
  "validate_api_key db t_cache t_store cache api_key =
     (if api_key = [] then (None, cache)
      else case DEMO_API_KEYS api_key of
        Some (d_tier, d_name, d_active) \<Rightarrow>
          (if d_active
           then (Some \<lparr>ki_key = api_key, ki_tier = d_tier, ki_name = d_name,
                       ki_active = Some d_active, ki_user_id = None\<rparr>, cache)
           else (None, cache))
      | None \<Rightarrow>
          (case cache (''apikey_'' @ api_key) of
             Some (cached, cached_at) \<Rightarrow>
               (if t_cache - cached_at < of_int cache_ttl then (Some cached, cache)
                else validate_api_key_db db t_store cache api_key)
           | None \<Rightarrow> validate_api_key_db db t_store cache api_key))"

subsection \<open>Requests, request state, responses\<close>

record request =
  req_path :: string
  req_method :: string
  req_headers :: "string \<rightharpoonup> string"
  req_query_params :: "string \<rightharpoonup> string"
  req_client :: "string option"

text \<open>
  \<^verbatim>\<open>request.state\<close>: an attribute that was never assigned is \<open>None\<close>. The three
  \<^verbatim>\<open>rate_limit_*\<close> attributes are assigned together wherever the module assigns them,
  and are one optional triple (remaining, reset, limit) here.
\<close>

record request_state =
  st_api_key :: "string option"
  st_tier :: "string option"
  st_user_id :: "int option option"
  st_is_dashboard :: "bool option"
  st_rate_limit :: "(pynum \<times> int \<times> pynum) option"

record http_exception =
  status_code :: int
  detail :: string
  exc_headers :: "(string \<times> string) list"

record response =
  resp_status :: int
  resp_headers :: "string \<rightharpoonup> string"
  resp_body :: string

record globals =
  rate_limit_store :: rate_limit_store
  api_keys_cache :: api_keys_cache

text \<open>
  The clock readings one run of a dependency can make: the cache test and the cache
  write of \<^verbatim>\<open>validate_api_key\<close>, the quota check (or, for a dashboard request, the
  reading that stands in its place), and the \<^verbatim>\<open>Retry-After\<close> header.
\<close>

record clock =
  clk_cache :: rat
  clk_store :: rat
  clk_limit :: rat
  clk_retry :: rat

text \<open>\<^verbatim>\<open>a or b\<close> on two optional strings, and \<^verbatim>\<open>get_api_key\<close>.\<close>

definition py_or :: "string option \<Rightarrow> string option \<Rightarrow> string option" where
  "py_or a b = (case a of None \<Rightarrow> b | Some s \<Rightarrow> if s = [] then b else Some s)"

definition API_KEY_NAME :: string where
  "API_KEY_NAME = ''X-API-Key''"

definition get_api_key :: "request \<Rightarrow> string option" where
  "get_api_key request =
     py_or (req_headers request API_KEY_NAME) (req_query_params request ''api_key'')"

text \<open>
  \<^verbatim>\<open>f"user_{key_info.get('user_id')}" if key_info.get('user_id') else api_key\<close>
  (lines 237 and 272): the test is Python truthiness, so the user-id \<open>0\<close> takes the
  \<^verbatim>\<open>else\<close> branch as a missing one does.
\<close>

definition rate_limit_key_of :: "key_info \<Rightarrow> string \<Rightarrow> string" where
  "rate_limit_key_of key_info api_key =
     (case ki_user_id key_info of
        None \<Rightarrow> api_key
      | Some u \<Rightarrow> if u \<noteq> 0 then ''user_'' @ str_int u else api_key)"

definition public_paths :: "string list" where
  "public_paths = [''/health'', ''/'', ''/docs'', ''/redoc'', ''/openapi.json'']"

text \<open>
  \<^verbatim>\<open>require_api_key(request, api_key)\<close>. \<open>isoformat\<close> stands for
  \<^verbatim>\<open>datetime.fromtimestamp(t).isoformat()\<close>, which depends on the local time zone. The
  result is the exception raised (\<open>Inl\<close>) or the dictionary returned (\<open>Inr\<close>), with the
  request state and the module's dictionaries after the call.
\<close>

definition require_api_key ::
  "(int \<Rightarrow> string) \<Rightarrow> database \<Rightarrow> clock \<Rightarrow> request \<Rightarrow> string option \<Rightarrow> request_state \<Rightarrow> globals
     \<Rightarrow> (http_exception + key_info) \<times> request_state \<times> globals" where
  "require_api_key isoformat db clk request api_key state g =
     (if req_path request \<in> set public_paths
      then (Inr \<lparr>ki_key = ''public'', ki_tier = ''free'', ki_name = ''Public'',
                 ki_active = None, ki_user_id = None\<rparr>, state, g)
      else if api_key = None \<or> api_key = Some []
      then (Inl \<lparr>status_code = 401,
                 detail = ''API key required. Include 'X-API-Key' header or 'api_key' query parameter.'',
                 exc_headers = [(''WWW-Authenticate'', ''API key required'')]\<rparr>, state, g)
      else case validate_api_key db (clk_cache clk) (clk_store clk) (api_keys_cache g) (the api_key) of
        (None, cache') \<Rightarrow>
          (Inl \<lparr>status_code = 401, detail = ''Invalid API key'',
                exc_headers = [(''WWW-Authenticate'', ''API key invalid'')]\<rparr>,
           state, g\<lparr>api_keys_cache := cache'\<rparr>)
      | (Some key_info, cache') \<Rightarrow>
          (let is_dashboard = (req_headers request ''X-Dashboard'' = Some ''true'');
               state1 = state\<lparr>st_api_key := api_key,
                              st_tier := Some (ki_tier key_info),
                              st_user_id := Some (ki_user_id key_info),
                              st_is_dashboard := Some is_dashboard\<rparr>
           in if is_dashboard
              then (let limit = dict_get RATE_LIMITS (ki_tier key_info) (PInt 100)
                    in (Inr key_info,
                        state1\<lparr>st_rate_limit :=
                          Some (if limit \<noteq> PInf then limit else PInt 999999,
                                py_int (clk_limit clk + 3600), limit)\<rparr>,
                        g\<lparr>api_keys_cache := cache'\<rparr>))
              else (let rate_limit_key = rate_limit_key_of key_info (the api_key)
                    in case check_rate_limit (clk_limit clk) rate_limit_key (ki_tier key_info)
                              (rate_limit_store g) of
                      ((allowed, remaining, reset), store') \<Rightarrow>
                        (let limit = dict_get RATE_LIMITS (ki_tier key_info) (PInt 100);
                             state2 = state1\<lparr>st_rate_limit := Some (remaining, reset, limit)\<rparr>;
                             g' = \<lparr>rate_limit_store = store', api_keys_cache = cache'\<rparr>
                         in if \<not> allowed
                            then (Inl \<lparr>status_code = 429,
                                       detail = ''Rate limit exceeded. Resets at '' @ isoformat reset,
                                       exc_headers =
                                         [(''X-RateLimit-Limit'', str_num limit),
                                          (''X-RateLimit-Remaining'', ''0''),
                                          (''X-RateLimit-Reset'', str_int reset),
                                          (''Retry-After'',
                                             str_int (py_int (of_int reset - clk_retry clk)))]\<rparr>,
                                  state2, g')
                            else (Inr key_info, state2, g')))))"

text \<open>The anonymous tail of \<^verbatim>\<open>optional_api_key\<close> (lines 284 to 301).\<close>

definition optional_api_key_anonymous ::
  "clock \<Rightarrow> request \<Rightarrow> request_state \<Rightarrow> globals
     \<Rightarrow> (http_exception + key_info) \<times> request_state \<times> globals" where
  "optional_api_key_anonymous clk request state g =
     (let client_ip = (case req_client request of Some host \<Rightarrow> host | None \<Rightarrow> ''unknown'');
          anonymous_key = ''anon_'' @ client_ip
      in case check_rate_limit (clk_limit clk) anonymous_key ''free'' (rate_limit_store g) of
        ((allowed, remaining, reset), store') \<Rightarrow>
          (let state' = state\<lparr>st_rate_limit := Some (remaining, reset, the (RATE_LIMITS ''free'')),
                              st_api_key := Some anonymous_key,
                              st_tier := Some ''free''\<rparr>;
               g' = g\<lparr>rate_limit_store := store'\<rparr>
           in if \<not> allowed
              then (Inl \<lparr>status_code = 429,
                         detail = ''Rate limit exceeded. Get an API key for higher limits.'',
                         exc_headers = []\<rparr>, state', g')
              else (Inr \<lparr>ki_key = anonymous_key, ki_tier = ''free'', ki_name = ''Anonymous'',
                         ki_active = None, ki_user_id = None\<rparr>, state', g')))"

text \<open>\<^verbatim>\<open>optional_api_key(request, api_key)\<close>.\<close>

definition optional_api_key ::
  "database \<Rightarrow> clock \<Rightarrow> request \<Rightarrow> string option \<Rightarrow> request_state \<Rightarrow> globals
     \<Rightarrow> (http_exception + key_info) \<times> request_state \<times> globals" where
  "optional_api_key db clk request api_key state g =
     (if api_key = None \<or> api_key = Some []
      then optional_api_key_anonymous clk request state g
      else case validate_api_key db (clk_cache clk) (clk_store clk) (api_keys_cache g) (the api_key) of
        (None, cache') \<Rightarrow>
          optional_api_key_anonymous clk request state (g\<lparr>api_keys_cache := cache'\<rparr>)
      | (Some key_info, cache') \<Rightarrow>
          (let rate_limit_key = rate_limit_key_of key_info (the api_key)
           in case check_rate_limit (clk_limit clk) rate_limit_key (ki_tier key_info)
                     (rate_limit_store g) of
             ((allowed, remaining, reset), store') \<Rightarrow>
               (let limit = dict_get RATE_LIMITS (ki_tier key_info) (PInt 100);
                    state' = state\<lparr>st_rate_limit := Some (remaining, reset, limit),
                                   st_api_key := api_key,
                                   st_tier := Some (ki_tier key_info)\<rparr>;
                    g' = \<lparr>rate_limit_store = store', api_keys_cache = cache'\<rparr>
                in if \<not> allowed
                   then (Inl \<lparr>status_code = 429, detail = ''Rate limit exceeded'',
                              exc_headers = []\<rparr>, state', g')
                   else (Inr key_info, state', g'))))"

subsection \<open>Usage logging and the middleware\<close>

record usage_record =
  u_api_key :: string
  u_endpoint :: string
  u_method :: string
  u_status_code :: int
  u_response_time_ms :: int
  u_ip_address :: string
  u_user_id :: "int option"

text \<open>
  \<^verbatim>\<open>log_api_usage\<close> appends a row to the \<^verbatim>\<open>api_usage\<close> table; any exception is caught
  and the table stays as it is.
\<close>

definition log_api_usage ::
  "database \<Rightarrow> string \<Rightarrow> string \<Rightarrow> string \<Rightarrow> int \<Rightarrow> int \<Rightarrow> string \<Rightarrow> int option
     \<Rightarrow> usage_record list \<Rightarrow> usage_record list" where
  "log_api_usage db api_key endpoint method status response_time_ms ip_address user_id table =
     (if connects db \<and> insert_ok db
      then table @ [\<lparr>u_api_key = (if api_key = [] then ''anonymous'' else api_key),
                      u_endpoint = endpoint, u_method = method, u_status_code = status,
                      u_response_time_ms = response_time_ms, u_ip_address = ip_address,
                      u_user_id = user_id\<rparr>]
      else table)"

text \<open>
  An exception other than the \<^verbatim>\<open>HTTPException\<close>s of the dependencies: what an endpoint
  raises when it fails, named by its message.
\<close>

datatype py_exception = PyException string

text \<open>
  \<^verbatim>\<open>RateLimitMiddleware.dispatch(request, call_next)\<close>. \<open>call_next\<close> is the rest of the
  application: it returns a response or raises, and may change the request state and the
  module's dictionaries either way. \<^verbatim>\<open>await call_next(request)\<close> stands in no
  \<^verbatim>\<open>try\<close>, so an exception leaves \<^verbatim>\<open>dispatch\<close> at once: no header is added and
  \<^verbatim>\<open>log_api_usage\<close> is not called. \<open>end_time\<close> is the clock reading after the
  response; \<open>table\<close> is the \<^verbatim>\<open>api_usage\<close> table.
\<close>

definition dispatch ::
  "database \<Rightarrow> rat \<Rightarrow> rat \<Rightarrow> request
     \<Rightarrow> (request_state \<Rightarrow> globals \<Rightarrow> (py_exception + response) \<times> request_state \<times> globals)
     \<Rightarrow> request_state \<Rightarrow> globals \<Rightarrow> usage_record list
     \<Rightarrow> (py_exception + response) \<times> request_state \<times> globals \<times> usage_record list" where
  "dispatch db start_time end_time request call_next state g table =
     (let api_key = py_or (req_headers request ''X-API-Key'') (req_query_params request ''api_key'');
          is_dashboard = (req_headers request ''X-Dashboard'' = Some ''true'')
      in case call_next state g of
        (Inl raised, state', g') \<Rightarrow> (Inl raised, state', g', table)
      | (Inr response0, state', g') \<Rightarrow>
          (let response_time = py_int ((end_time - start_time) * 1000);
               response =
                 (case st_rate_limit state' of
                    None \<Rightarrow> response0
                  | Some (remaining, reset, limit) \<Rightarrow>
                      response0\<lparr>resp_headers := (resp_headers response0)
                        (''X-RateLimit-Limit'' \<mapsto> str_num limit,
                         ''X-RateLimit-Remaining'' \<mapsto> str_num remaining,
                         ''X-RateLimit-Reset'' \<mapsto> str_int reset)\<rparr>)
           in if api_key \<noteq> None \<and> api_key \<noteq> Some [] \<and> \<not> is_dashboard
              then (let user_id = (case st_user_id state' of None \<Rightarrow> None | Some u \<Rightarrow> u);
                        ip = (case req_client request of Some host \<Rightarrow> host | None \<Rightarrow> ''unknown'')
                    in (Inr response, state', g',
                        log_api_usage db (the api_key) (req_path request) (req_method request)
                          (resp_status response) response_time ip user_id table))
              else (Inr response, state', g', table)))"

text \<open>
  A route guarded by a dependency, as the framework runs it below the middleware
  (\<^verbatim>\<open>app.add_middleware(RateLimitMiddleware)\<close> in \<^verbatim>\<open>api/main.py\<close>): an
  \<^verbatim>\<open>HTTPException\<close> raised by the dependency becomes the response (its status, its
  headers, its detail as the body) before \<^verbatim>\<open>call_next\<close> returns; otherwise the endpoint
  runs, and either answers or raises, and what it raises goes up through
  \<^verbatim>\<open>call_next\<close>. The dependency and the middleware see one \<^verbatim>\<open>request.state\<close>, which is
  how the module passes the \<^verbatim>\<open>rate_limit_*\<close> values to \<^verbatim>\<open>dispatch\<close>. This part is the
  framework's behaviour, not code of the module.
\<close>

definition http_exception_response :: "http_exception \<Rightarrow> response" where
  "http_exception_response exc =
     \<lparr>resp_status = status_code exc, resp_headers = map_of (exc_headers exc),
      resp_body = detail exc\<rparr>"

definition guarded_route ::
  "(request_state \<Rightarrow> globals \<Rightarrow> (http_exception + key_info) \<times> request_state \<times> globals)
     \<Rightarrow> (key_info \<Rightarrow> request_state \<Rightarrow> py_exception + response)
     \<Rightarrow> request_state \<Rightarrow> globals \<Rightarrow> (py_exception + response) \<times> request_state \<times> globals" where
  "guarded_route dependency endpoint state g =
     (case dependency state g of
        (Inl exc, state', g') \<Rightarrow> (Inr (http_exception_response exc), state', g')
      | (Inr key_info, state', g') \<Rightarrow> (endpoint key_info state', state', g'))"

text \<open>
  The two route guards under one name, for statements about either: \<open>Required\<close> is
  \<^verbatim>\<open>Depends(require_api_key)\<close>, \<open>Optional\<close> is \<^verbatim>\<open>Depends(optional_api_key)\<close>.
  \<open>quota_applies\<close> says that the guard reaches its quota check once the key is
  resolved: \<^verbatim>\<open>require_api_key\<close> returns before it for a public path and for a
  dashboard request.
\<close>

datatype entry_point = Required | Optional

definition run_dependency ::
  "entry_point \<Rightarrow> (int \<Rightarrow> string) \<Rightarrow> database \<Rightarrow> clock \<Rightarrow> request \<Rightarrow> string option
     \<Rightarrow> request_state \<Rightarrow> globals \<Rightarrow> (http_exception + key_info) \<times> request_state \<times> globals" where
  "run_dependency ep isoformat db clk request api_key state g =
     (case ep of
        Required \<Rightarrow> require_api_key isoformat db clk request api_key state g
      | Optional \<Rightarrow> optional_api_key db clk request api_key state g)"

definition quota_applies :: "entry_point \<Rightarrow> request \<Rightarrow> bool" where
  "quota_applies ep request =
     (case ep of
        Required \<Rightarrow> req_path request \<notin> set public_paths
                     \<and> req_headers request ''X-Dashboard'' \<noteq> Some ''true''
      | Optional \<Rightarrow> True)"

subsection \<open>Predicates used in the statements\<close>

text \<open>
  The backing store raises during the primary or the secondary lookup of a key (the
  secondary one is only reached when the primary one returns no row), and a cache entry
  for the key is younger than the time to live.
\<close>

definition lookup_raises :: "database \<Rightarrow> string \<Rightarrow> bool" where
  "lookup_raises db api_key =
     (if \<not> connects db then True
      else case users_table db api_key of
        QueryError \<Rightarrow> True
      | FetchOne (Some row) \<Rightarrow> False
      | FetchOne None \<Rightarrow> (api_keys_table db api_key = QueryError))"

definition freshly_cached :: "api_keys_cache \<Rightarrow> rat \<Rightarrow> string \<Rightarrow> bool" where
  "freshly_cached cache now api_key =
     (case cache (''apikey_'' @ api_key) of
        None \<Rightarrow> False
      | Some (cached, cached_at) \<Rightarrow> now - cached_at < of_int cache_ttl)"

text \<open>
  The quota tracker denied some key at the dependency's quota check: the call returned
  \<open>(False, 0, reset)\<close>, \<open>reset\<close> is the truncated end of that key's stored window,
  and the dependency left it in the request state.
\<close>

abbreviation quota_denial ::
  "clock \<Rightarrow> globals \<Rightarrow> request_state \<Rightarrow> globals \<Rightarrow> int \<Rightarrow> bool" where
  "quota_denial clk g state' g' reset \<equiv>
     (\<exists>k tier lmt w.
        check_rate_limit (clk_limit clk) k tier (rate_limit_store g) =
          ((False, PInt 0, reset), rate_limit_store g')
        \<and> rate_limit_store g' k = Some w \<and> reset = py_int (reset_at w)
        \<and> st_rate_limit state' = Some (PInt 0, reset, lmt))"

subsection \<open>Concrete stores, requests and clocks for the examples\<close>

definition db_no_rows :: database where
  "db_no_rows = \<lparr>connects = True, users_table = (\<lambda>k. FetchOne None),
                  api_keys_table = (\<lambda>k. FetchOne None), insert_ok = True\<rparr>"

definition db_user :: "int \<Rightarrow> string \<Rightarrow> database" where
  "db_user uid current_key =
     \<lparr>connects = True,
      users_table = (\<lambda>k. if k = current_key
                          then FetchOne (Some (current_key, ''free'', ''Zed'', True, uid))
                          else FetchOne None),
      api_keys_table = (\<lambda>k. FetchOne None), insert_ok = True\<rparr>"

definition clock_at :: "rat \<Rightarrow> clock" where
  "clock_at t = \<lparr>clk_cache = t, clk_store = t, clk_limit = t, clk_retry = t\<rparr>"

definition fresh_state :: request_state where
  "fresh_state = \<lparr>st_api_key = None, st_tier = None, st_user_id = None,
                   st_is_dashboard = None, st_rate_limit = None\<rparr>"

definition empty_globals :: globals where
  "empty_globals = \<lparr>rate_limit_store = Map.empty, api_keys_cache = Map.empty\<rparr>"

definition get_request :: "string \<Rightarrow> (string \<times> string) list \<Rightarrow> request" where
  "get_request p hs = \<lparr>req_path = p, req_method = ''GET'', req_headers = map_of hs,
                        req_query_params = Map.empty, req_client = Some ''10.0.0.1''\<rparr>"

definition ok_endpoint :: "key_info \<Rightarrow> request_state \<Rightarrow> py_exception + response" where
  "ok_endpoint key_info state =
     Inr \<lparr>resp_status = 200, resp_headers = Map.empty, resp_body = ''{}''\<rparr>"

definition failing_endpoint :: "key_info \<Rightarrow> request_state \<Rightarrow> py_exception + response" where
  "failing_endpoint key_info state = Inl (PyException ''connection refused'')"

definition db_failing :: database where
  "db_failing = \<lparr>connects = True, users_table = (\<lambda>k. QueryError),
                  api_keys_table = (\<lambda>k. FetchOne None), insert_ok = True\<rparr>"

definition full_window :: "string \<Rightarrow> globals" where
  "full_window k = \<lparr>rate_limit_store = [k \<mapsto> \<lparr>count = 100, reset_at = 4600\<rparr>],
                     api_keys_cache = Map.empty\<rparr>"

section \<open>Properties of the quota tracker\<close>

lemma free_limit: "the (RATE_LIMITS ''free'') = PInt 100"
  by (simp add: RATE_LIMITS_def)

lemma tier_limit_cases:
  "tier_limit tier = PInt 100 \<or> tier_limit tier = PInt 5000
   \<or> tier_limit tier = PInt 25000 \<or> tier_limit tier = PInf"
  by (simp add: tier_limit_def dict_get_def RATE_LIMITS_def)

lemma tier_limit_pos: "tier_limit tier = PInt l \<Longrightarrow> 100 \<le> l"
  using tier_limit_cases [of tier] by auto

text \<open>A call after the window's end opens a new window and is counted in it.\<close>

lemma check_expired:
  assumes "now > reset_at (store_item st k)"
  shows "check_rate_limit now k tier st =
           ((True, num_sub (tier_limit tier) 1, py_int (now + 3600)),
            st(k \<mapsto> \<lparr>count = 1, reset_at = now + 3600\<rparr>))"
proof -
  consider l where "tier_limit tier = PInt l" "100 \<le> l" | "tier_limit tier = PInf"
    using tier_limit_cases [of tier] by auto
  then show ?thesis
  proof cases
    case 1
    then show ?thesis using assms
      by (simp add: check_rate_limit_def tier_limit_def RATE_LIMIT_WINDOW_def Let_def)
  next
    case 2
    then show ?thesis using assms
      by (simp add: check_rate_limit_def tier_limit_def RATE_LIMIT_WINDOW_def Let_def)
  qed
qed

text \<open>A call inside the window, below the ceiling and at it.\<close>

lemma check_in_window_below:
  assumes "st k = Some w" "now \<le> reset_at w" "tier_limit tier = PInt l" "count w < l"
  shows "check_rate_limit now k tier st =
           ((True, PInt (l - count w - 1), py_int (reset_at w)),
            st(k \<mapsto> w\<lparr>count := count w + 1\<rparr>))"
  using assms
  by (simp add: check_rate_limit_def tier_limit_def store_item_def Let_def)

lemma check_in_window_full:
  assumes "st k = Some w" "now \<le> reset_at w" "tier_limit tier = PInt l" "l \<le> count w"
  shows "check_rate_limit now k tier st = ((False, PInt 0, py_int (reset_at w)), st)"
proof -
  have "st(k \<mapsto> w) = st" using assms(1) by (simp add: map_upd_triv)
  then show ?thesis using assms
    by (simp add: check_rate_limit_def tier_limit_def store_item_def Let_def)
qed

lemma calls_accepted:
  assumes "tier_limit tier = PInt l"
  shows "st k = Some w \<Longrightarrow> \<forall>t\<in>set ts. t \<le> reset_at w \<Longrightarrow> count w + int (length ts) \<le> l \<Longrightarrow>
     calls ts k tier st =
       (map (\<lambda>i. (True, PInt (l - count w - int i - 1), py_int (reset_at w))) [0..<length ts],
        st(k \<mapsto> w\<lparr>count := count w + int (length ts)\<rparr>))"
proof (induction ts arbitrary: st w)
  case Nil
  then show ?case by (simp add: map_upd_triv)
next
  case (Cons t ts)
  let ?w = "w\<lparr>count := count w + 1\<rparr>"
  let ?st = "st(k \<mapsto> ?w)"
  have step: "check_rate_limit t k tier st =
      ((True, PInt (l - count w - 1), py_int (reset_at w)), ?st)"
    using Cons.prems assms by (intro check_in_window_below) auto
  have ih: "calls ts k tier ?st =
       (map (\<lambda>i. (True, PInt (l - count ?w - int i - 1), py_int (reset_at ?w))) [0..<length ts],
        ?st(k \<mapsto> ?w\<lparr>count := count ?w + int (length ts)\<rparr>))"
    using Cons.prems by (intro Cons.IH) auto
  have "[0..<length (t # ts)] = 0 # [Suc 0..<Suc (length ts)]"
    by (simp add: upt_conv_Cons del: upt_Suc)
  then have idx: "[0..<length (t # ts)] = 0 # map Suc [0..<length ts]"
    by (simp only: map_Suc_upt)
  show ?case
    unfolding idx using step ih
    by (simp add: diff_diff_eq add.commute add.left_commute) (simp add: fun_upd_def)
qed

text \<open>
  Claim C1. For any key and any tier whose ceiling is a finite \<open>l\<close>: a call that opens
  a window followed by \<open>l - 1\<close> further calls inside that window are all accepted
  (\<open>l\<close> accepted calls), the last of them reports \<open>remaining = 0\<close>, the window then
  holds \<open>count = l\<close>, and one more call inside the window returns
  \<open>(False, 0, reset)\<close> and leaves the store exactly as it was.
\<close>

theorem quota_exhausted_after_limit:
  assumes "tier_limit tier = PInt l"
    and "reset_at (store_item st k) < t0"
    and "int (length ts) = l - 1"
    and "\<forall>t\<in>set (ts @ [t_next]). t \<le> t0 + 3600"
  shows "case calls (t0 # ts) k tier st of (rs, st_l) \<Rightarrow>
           map fst rs = replicate (nat l) True \<and> fst (snd (last rs)) = PInt 0
           \<and> st_l k = Some \<lparr>count = l, reset_at = t0 + 3600\<rparr>
           \<and> check_rate_limit t_next k tier st_l = ((False, PInt 0, py_int (t0 + 3600)), st_l)"
proof -
  let ?w = "\<lparr>count = 1, reset_at = t0 + 3600\<rparr>"
  let ?st = "st(k \<mapsto> ?w)"
  let ?r0 = "(True, num_sub (tier_limit tier) 1, py_int (t0 + 3600))"
  let ?rs = "map (\<lambda>i. (True, PInt (l - count ?w - int i - 1), py_int (reset_at ?w))) [0..<length ts]"
  let ?wl = "?w\<lparr>count := count ?w + int (length ts)\<rparr>"
  have first: "check_rate_limit t0 k tier st = (?r0, ?st)"
    using assms(2) by (rule check_expired)
  have rest: "calls ts k tier ?st = (?rs, ?st(k \<mapsto> ?wl))"
    using assms by (intro calls_accepted) auto
  have wl: "?wl = \<lparr>count = l, reset_at = t0 + 3600\<rparr>"
    using assms(3) by simp
  have all: "calls (t0 # ts) k tier st = (?r0 # ?rs, ?st(k \<mapsto> ?wl))"
    using first rest by simp
  have lastr: "fst (snd (last (?r0 # ?rs))) = PInt 0"
  proof (cases "ts = []")
    case True
    then have "l = 1" using assms(3) by simp
    then show ?thesis using True assms(1) by simp
  next
    case False
    then have "?rs \<noteq> []" by simp
    then have "last (?r0 # ?rs) = last ?rs" by simp
    also have "\<dots> = (True, PInt (l - 1 - int (length ts - 1) - 1), py_int (t0 + 3600))"
      using False by (simp add: last_map last_upt)
    finally have "last (?r0 # ?rs) = (True, PInt (l - 1 - int (length ts - 1) - 1), py_int (t0 + 3600))" .
    moreover have "int (length ts - 1) = int (length ts) - 1"
      using False by (cases ts) auto
    ultimately show ?thesis using assms(3) by simp
  qed
  have deny: "check_rate_limit t_next k tier (?st(k \<mapsto> ?wl)) =
      ((False, PInt 0, py_int (reset_at ?wl)), ?st(k \<mapsto> ?wl))"
    using assms by (intro check_in_window_full [where l = l]) auto
  have "nat l = Suc (length ts)" using assms(3) by simp
  then have acc: "map fst (?r0 # ?rs) = replicate (nat l) True"
    by (simp add: o_def map_replicate_const)
  show ?thesis
    unfolding all using lastr deny acc wl by simp
qed

theorem quota_exhausted_after_limit_witness:
  "(case calls (5 # replicate 99 10) ''demo-key-free'' ''free'' Map.empty of (rs, st_l) \<Rightarrow>
           map fst rs = replicate 100 True \<and> fst (snd (last rs)) = PInt 0
           \<and> st_l ''demo-key-free'' = Some \<lparr>count = 100, reset_at = 5 + 3600\<rparr>
           \<and> check_rate_limit 20 ''demo-key-free'' ''free'' st_l = ((False, PInt 0, py_int (5 + 3600)), st_l))"
proof -
  have h1: "tier_limit ''free'' = PInt 100"
    by (simp add: tier_limit_def dict_get_def RATE_LIMITS_def)
  have h2: "reset_at (store_item Map.empty ''demo-key-free'') < 5"
    by (simp add: store_item_def default_window_def)
  have h3: "int (length (replicate 99 (10::rat))) = 100 - 1" by simp
  have h4: "\<forall>t\<in>set (replicate 99 10 @ [20]). t \<le> (5::rat) + 3600" by simp
  show ?thesis
    using quota_exhausted_after_limit [OF h1 h2 h3 h4] by simp
qed

text \<open>
  Claim C5. A call made strictly after the stored window's \<open>reset_at\<close> is allowed,
  whatever the tier, and leaves the window with \<open>count = 1\<close> and
  \<open>reset_at = now + 3600\<close>.
\<close>

theorem window_reset_counts_request:
  assumes "st k = Some w" and "reset_at w < now"
  shows "check_rate_limit now k tier st =
           ((True, num_sub (tier_limit tier) 1, py_int (now + 3600)),
            st(k \<mapsto> \<lparr>count = 1, reset_at = now + 3600\<rparr>))"
  using assms by (intro check_expired) (simp add: store_item_def)

theorem window_reset_counts_request_witness:
  "[''k'' \<mapsto> \<lparr>count = 100, reset_at = 3600\<rparr>] ''k'' = Some \<lparr>count = 100, reset_at = 3600\<rparr>
   \<and> reset_at \<lparr>count = 100, reset_at = 3600\<rparr> < 3601
   \<and> check_rate_limit 3601 ''k'' ''free'' [''k'' \<mapsto> \<lparr>count = 100, reset_at = 3600\<rparr>] =
           ((True, PInt 99, 7201), [''k'' \<mapsto> \<lparr>count = 1, reset_at = 7201\<rparr>])"
  using window_reset_counts_request [of "[''k'' \<mapsto> \<lparr>count = 100, reset_at = 3600\<rparr>]" "''k''"
      "\<lparr>count = 100, reset_at = 3600\<rparr>" 3601 "''free''"]
  by (simp add: tier_limit_def dict_get_def RATE_LIMITS_def py_int_def)

section \<open>Evaluation of the examples\<close>

lemmas example_defs = db_no_rows_def db_user_def clock_at_def fresh_state_def
  empty_globals_def get_request_def

lemmas eval_defs = optional_api_key_def require_api_key_def validate_api_key_def
  validate_api_key_db_def DEMO_API_KEYS_def check_rate_limit_def store_item_def
  default_window_def RATE_LIMITS_def RATE_LIMIT_WINDOW_def cache_ttl_def dict_get_def
  rate_limit_key_of_def py_int_def get_api_key_def API_KEY_NAME_def py_or_def public_paths_def
  optional_api_key_anonymous_def

lemmas more_defs = ok_endpoint_def failing_endpoint_def db_failing_def full_window_def dispatch_def guarded_route_def
  http_exception_response_def log_api_usage_def str_int_def

section \<open>Properties of key resolution\<close>

lemma validate_db_result_ignores_cache:
  "fst (validate_api_key_db db t cache k) = fst (validate_api_key_db db t cache' k)"
  by (simp add: validate_api_key_db_def Let_def split: query_result.splits option.splits prod.splits)

lemma validate_db_none_keeps_cache:
  "validate_api_key_db db t cache k = (None, cache') \<Longrightarrow> cache' = cache"
  by (auto simp: validate_api_key_db_def Let_def split: query_result.splits option.splits if_splits)

lemma validate_none_keeps_cache:
  "validate_api_key db tc ts cache k = (None, cache') \<Longrightarrow> cache' = cache"
  by (auto simp: validate_api_key_def split: option.splits if_splits prod.splits
           dest: validate_db_none_keeps_cache)

text \<open>
  Claim C7. A cache entry whose age \<open>t_cache - cached_at\<close> is 300 seconds or more is
  not served: for every credential the value returned is the one returned when the entry
  is absent, and for a credential that reaches the cache test (not empty, not a demo
  key) the call is the backing-store lookup.
\<close>

theorem stale_cache_entry_not_served:
  assumes "cache (''apikey_'' @ api_key) = Some (cached, cached_at)"
    and "of_int cache_ttl \<le> t_cache - cached_at"
  shows "fst (validate_api_key db t_cache t_store cache api_key) =
           fst (validate_api_key db t_cache t_store (cache(''apikey_'' @ api_key := None)) api_key)
         \<and> (api_key \<noteq> [] \<and> DEMO_API_KEYS api_key = None \<longrightarrow>
              validate_api_key db t_cache t_store cache api_key =
                validate_api_key_db db t_store cache api_key)"
proof -
  have stale: "\<not> t_cache - cached_at < of_int cache_ttl" using assms(2) by simp
  show ?thesis
  proof (cases "api_key \<noteq> [] \<and> DEMO_API_KEYS api_key = None")
    case True
    then show ?thesis using assms(1) stale
      by (simp add: validate_api_key_def
          validate_db_result_ignores_cache [of db t_store cache api_key "cache(''apikey_'' @ api_key := None)"])
  next
    case False
    then show ?thesis
      by (auto simp: validate_api_key_def split: option.splits)
  qed
qed

theorem stale_cache_entry_not_served_witness:
  "validate_api_key
     \<lparr>connects = True, users_table = (\<lambda>k. FetchOne None),
      api_keys_table = (\<lambda>k. FetchOne None), insert_ok = True\<rparr>
     1300 1301
     [''apikey_rsk_1'' \<mapsto> (\<lparr>ki_key = ''rsk_1'', ki_tier = ''developer'', ki_name = ''Ann'',
                              ki_active = Some True, ki_user_id = Some 7\<rparr>, 1000)]
     ''rsk_1''
   = (None, [''apikey_rsk_1'' \<mapsto> (\<lparr>ki_key = ''rsk_1'', ki_tier = ''developer'', ki_name = ''Ann'',
                              ki_active = Some True, ki_user_id = Some 7\<rparr>, 1000)])"
  using stale_cache_entry_not_served [of
      "[''apikey_rsk_1'' \<mapsto> (\<lparr>ki_key = ''rsk_1'', ki_tier = ''developer'', ki_name = ''Ann'',
                              ki_active = Some True, ki_user_id = Some 7\<rparr>, 1000)]"
      "''rsk_1''"
      "\<lparr>ki_key = ''rsk_1'', ki_tier = ''developer'', ki_name = ''Ann'',
                              ki_active = Some True, ki_user_id = Some 7\<rparr>"
      1000 1300
      "\<lparr>connects = True, users_table = (\<lambda>k. FetchOne None),
      api_keys_table = (\<lambda>k. FetchOne None), insert_ok = True\<rparr>" 1301]
  by (simp add: cache_ttl_def DEMO_API_KEYS_def validate_api_key_db_def)

text \<open>
  Claim C6. For a credential outside the demo registry with no fresh cache entry, when
  the backing store raises during the primary or the secondary lookup,
  \<^verbatim>\<open>validate_api_key\<close> returns \<^verbatim>\<open>None\<close> and leaves the cache as it was; and
  \<^verbatim>\<open>require_api_key\<close>, whenever it reaches the lookup (a path outside the public list,
  a credential that is not empty), raises the 401 "Invalid API key" and changes
  neither the request state nor the module's dictionaries.
\<close>

theorem store_failure_fails_closed:
  assumes "DEMO_API_KEYS api_key = None"
    and "\<not> freshly_cached (api_keys_cache g) (clk_cache clk) api_key"
    and "lookup_raises db api_key"
  shows "validate_api_key db (clk_cache clk) (clk_store clk) (api_keys_cache g) api_key =
           (None, api_keys_cache g)
         \<and> (api_key \<noteq> [] \<and> req_path request \<notin> set public_paths \<longrightarrow>
              require_api_key isoformat db clk request (Some api_key) state g =
                (Inl \<lparr>status_code = 401, detail = ''Invalid API key'',
                      exc_headers = [(''WWW-Authenticate'', ''API key invalid'')]\<rparr>, state, g))"
proof -
  have raises: "validate_api_key_db db (clk_store clk) (api_keys_cache g) api_key =
      (None, api_keys_cache g)"
    using assms(3)
    by (auto simp: lookup_raises_def validate_api_key_db_def Let_def
        split: if_splits query_result.splits option.splits)
  have v: "validate_api_key db (clk_cache clk) (clk_store clk) (api_keys_cache g) api_key =
      (None, api_keys_cache g)"
    using assms(1,2) raises
    by (auto simp: validate_api_key_def freshly_cached_def split: option.splits)
  show ?thesis using v by (simp add: require_api_key_def)
qed

theorem store_failure_witness:
  "require_api_key str_int db_failing (clock_at 1000)
     (get_request ''/api/v1/accidents'' [(''X-API-Key'', ''rsk_abc'')])
     (Some ''rsk_abc'') fresh_state empty_globals
   = (Inl \<lparr>status_code = 401, detail = ''Invalid API key'',
            exc_headers = [(''WWW-Authenticate'', ''API key invalid'')]\<rparr>,
      fresh_state, empty_globals)"
proof -
  have h1: "''rsk_abc'' \<noteq> []" by simp
  have h2: "DEMO_API_KEYS ''rsk_abc'' = None" by (simp add: DEMO_API_KEYS_def)
  have h3: "\<not> freshly_cached (api_keys_cache empty_globals) (clk_cache (clock_at 1000)) ''rsk_abc''"
    by (simp add: freshly_cached_def empty_globals_def)
  have h4: "lookup_raises db_failing ''rsk_abc''"
    by (simp add: lookup_raises_def db_failing_def)
  have h5: "req_path (get_request ''/api/v1/accidents'' [(''X-API-Key'', ''rsk_abc'')]) \<notin> set public_paths"
    by (simp add: get_request_def public_paths_def)
  show ?thesis
    using store_failure_fails_closed [OF h2 h3 h4, of "get_request ''/api/v1/accidents'' [(''X-API-Key'', ''rsk_abc'')]" str_int fresh_state] h1 h5
    by simp
qed

section \<open>Properties of the two dependencies\<close>

lemma check_rate_limit_reset:
  "check_rate_limit now k tier st = ((allowed, remaining, reset), st') \<Longrightarrow>
     (\<exists>w. st' k = Some w \<and> reset = py_int (reset_at w))"
  by (auto simp: check_rate_limit_def Let_def split: if_splits)

text \<open>
  Claim C10. On an optional-auth route, a credential that \<^verbatim>\<open>validate_api_key\<close> does
  not resolve gives exactly the outcome of no credential at all (result, request state
  and dictionaries): the quota is checked for \<open>anon_<client address>\<close> on the free
  tier, and the only exception there is the 429 of that check, never a 401.
\<close>

theorem optional_unresolved_key_is_anonymous:
  assumes "fst (validate_api_key db (clk_cache clk) (clk_store clk) (api_keys_cache g) k) = None"
  shows "optional_api_key db clk request (Some k) state g =
           optional_api_key db clk request None state g
         \<and> optional_api_key db clk request (Some k) state g =
             (case check_rate_limit (clk_limit clk)
                     (''anon_'' @ (case req_client request of Some host \<Rightarrow> host | None \<Rightarrow> ''unknown''))
                     ''free'' (rate_limit_store g) of
                ((allowed, remaining, reset), store') \<Rightarrow>
                  (if allowed
                   then Inr \<lparr>ki_key = ''anon_'' @ (case req_client request of Some host \<Rightarrow> host
                                                     | None \<Rightarrow> ''unknown''),
                             ki_tier = ''free'', ki_name = ''Anonymous'',
                             ki_active = None, ki_user_id = None\<rparr>
                   else Inl \<lparr>status_code = 429,
                             detail = ''Rate limit exceeded. Get an API key for higher limits.'',
                             exc_headers = []\<rparr>,
                   state\<lparr>st_rate_limit := Some (remaining, reset, PInt 100),
                         st_api_key := Some (''anon_'' @ (case req_client request of Some host \<Rightarrow> host
                                                          | None \<Rightarrow> ''unknown'')),
                         st_tier := Some ''free''\<rparr>,
                   g\<lparr>rate_limit_store := store'\<rparr>))"
proof -
  obtain c where v: "validate_api_key db (clk_cache clk) (clk_store clk) (api_keys_cache g) k = (None, c)"
    using assms by (cases "validate_api_key db (clk_cache clk) (clk_store clk) (api_keys_cache g) k") auto
  then have c: "c = api_keys_cache g" by (rule validate_none_keeps_cache)
  have same: "optional_api_key db clk request (Some k) state g =
      optional_api_key_anonymous clk request state g"
    using v c by (simp add: optional_api_key_def)
  have anon: "optional_api_key db clk request None state g =
      optional_api_key_anonymous clk request state g"
    by (simp add: optional_api_key_def)
  show ?thesis
    unfolding same anon
    by (simp add: optional_api_key_anonymous_def Let_def free_limit split: prod.splits)
qed

theorem optional_unresolved_key_witness:
  "optional_api_key db_no_rows (clock_at 1000)
     (get_request ''/api/v1/accidents'' [(''X-API-Key'', ''bogus'')])
     (Some ''bogus'') fresh_state empty_globals
   = (Inr \<lparr>ki_key = ''anon_10.0.0.1'', ki_tier = ''free'', ki_name = ''Anonymous'',
            ki_active = None, ki_user_id = None\<rparr>,
      fresh_state\<lparr>st_rate_limit := Some (PInt 99, 4600, PInt 100),
                  st_api_key := Some ''anon_10.0.0.1'', st_tier := Some ''free''\<rparr>,
      empty_globals\<lparr>rate_limit_store := [''anon_10.0.0.1'' \<mapsto> \<lparr>count = 1, reset_at = 4600\<rparr>]\<rparr>)"
proof -
  have h: "fst (validate_api_key db_no_rows (clk_cache (clock_at 1000)) (clk_store (clock_at 1000))
             (api_keys_cache empty_globals) ''bogus'') = None"
    by (simp add: eval_defs example_defs)
  have c: "check_rate_limit (clk_limit (clock_at 1000)) ''anon_10.0.0.1'' ''free''
             (rate_limit_store empty_globals)
           = ((True, PInt 99, 4600), [''anon_10.0.0.1'' \<mapsto> \<lparr>count = 1, reset_at = 4600\<rparr>])"
    by (simp add: eval_defs example_defs)
  show ?thesis
    using optional_unresolved_key_is_anonymous [OF h, of "get_request ''/api/v1/accidents'' [(''X-API-Key'', ''bogus'')]" fresh_state,
        THEN conjunct2] c
    by (simp add: get_request_def)
qed

lemma check_rate_limit_denied:
  "check_rate_limit now k tier st = ((False, remaining, reset), st') \<Longrightarrow> remaining = PInt 0"
  by (auto simp: check_rate_limit_def Let_def split: if_splits)

lemma check_rate_limit_result:
  obtains allowed remaining reset store' where
    "check_rate_limit now k tier st = ((allowed, remaining, reset), store')"
proof -
  obtain r store' where a: "check_rate_limit now k tier st = (r, store')"
    by (cases "check_rate_limit now k tier st")
  obtain allowed remaining reset where "r = (allowed, remaining, reset)"
    by (cases r)
  with a that show thesis by simp
qed

lemma anonymous_429:
  assumes "optional_api_key_anonymous clk request state g = (Inl exc, state', g')"
  shows "\<exists>reset. quota_denial clk g state' g' reset"
proof -
  let ?k = "''anon_'' @ (case req_client request of Some host \<Rightarrow> host | None \<Rightarrow> ''unknown'')"
  obtain allowed remaining reset store' where
    c: "check_rate_limit (clk_limit clk) ?k ''free'' (rate_limit_store g) =
          ((allowed, remaining, reset), store')"
    by (rule check_rate_limit_result)
  have na: "\<not> allowed" and s: "state' = state\<lparr>st_rate_limit := Some (remaining, reset, the (RATE_LIMITS ''free'')),
                              st_api_key := Some ?k, st_tier := Some ''free''\<rparr>"
    and g: "g' = g\<lparr>rate_limit_store := store'\<rparr>"
    using assms c by (auto simp: optional_api_key_anonymous_def Let_def split: if_splits)
  have r: "remaining = PInt 0" using c na check_rate_limit_denied [of "clk_limit clk" _ _ _ remaining reset store'] by simp
  obtain w where w: "store' ?k = Some w" "reset = py_int (reset_at w)"
    using check_rate_limit_reset [OF c] by blast
  show ?thesis
    using c na r w s g by (intro exI [of _ reset] exI [of _ ?k] exI [of _ "''free''"] exI [of _ "the (RATE_LIMITS ''free'')"] exI [of _ w]) simp
qed

lemma optional_429:
  assumes "optional_api_key db clk request api_key state g = (Inl exc, state', g')"
  shows "\<exists>reset. quota_denial clk g state' g' reset"
proof (cases "api_key = None \<or> api_key = Some []")
  case True
  then show ?thesis using assms anonymous_429 by (auto simp: optional_api_key_def)
next
  case False
  obtain r c where v: "validate_api_key db (clk_cache clk) (clk_store clk) (api_keys_cache g) (the api_key) = (r, c)"
    by (cases "validate_api_key db (clk_cache clk) (clk_store clk) (api_keys_cache g) (the api_key)")
  show ?thesis
  proof (cases r)
    case None
    then have "c = api_keys_cache g" using v validate_none_keeps_cache by blast
    then show ?thesis using assms False v None anonymous_429 by (auto simp: optional_api_key_def)
  next
    case (Some key_info)
    let ?k = "rate_limit_key_of key_info (the api_key)"
    obtain allowed remaining reset store' where
      ch: "check_rate_limit (clk_limit clk) ?k (ki_tier key_info) (rate_limit_store g) =
            ((allowed, remaining, reset), store')"
      by (rule check_rate_limit_result)
    have na: "\<not> allowed"
      and s: "st_rate_limit state' = Some (remaining, reset, dict_get RATE_LIMITS (ki_tier key_info) (PInt 100))"
      and g: "rate_limit_store g' = store'"
      using assms False v Some ch by (auto simp: optional_api_key_def Let_def split: if_splits)
    have r: "remaining = PInt 0" using ch na check_rate_limit_denied [of "clk_limit clk" _ _ _ remaining reset store'] by simp
    obtain w where w: "store' ?k = Some w" "reset = py_int (reset_at w)"
      using check_rate_limit_reset [OF ch] by blast
    show ?thesis
      using ch na r w s g by (intro exI [of _ reset] exI [of _ ?k] exI [of _ "ki_tier key_info"] exI [of _ "dict_get RATE_LIMITS (ki_tier key_info) (PInt 100)"] exI [of _ w]) simp
  qed
qed

lemma require_429:
  assumes "require_api_key isoformat db clk request api_key state g = (Inl exc, state', g')"
    and "status_code exc = 429"
  shows "\<exists>reset. quota_denial clk g state' g' reset
           \<and> map_of (exc_headers exc) ''X-RateLimit-Reset'' = Some (str_int reset)
           \<and> detail exc = ''Rate limit exceeded. Resets at '' @ isoformat reset"
proof -
  have np: "req_path request \<notin> set public_paths" and k: "\<not> (api_key = None \<or> api_key = Some [])"
    using assms by (auto simp: require_api_key_def split: if_splits)
  obtain r c where v: "validate_api_key db (clk_cache clk) (clk_store clk) (api_keys_cache g) (the api_key) = (r, c)"
    by (cases "validate_api_key db (clk_cache clk) (clk_store clk) (api_keys_cache g) (the api_key)")
  obtain key_info where r: "r = Some key_info"
    using assms np k v by (cases r) (auto simp: require_api_key_def)
  have nd: "req_headers request ''X-Dashboard'' \<noteq> Some ''true''"
    using assms np k v r by (auto simp: require_api_key_def Let_def split: if_splits)
  let ?k = "rate_limit_key_of key_info (the api_key)"
  obtain allowed remaining reset store' where
    ch: "check_rate_limit (clk_limit clk) ?k (ki_tier key_info) (rate_limit_store g) =
          ((allowed, remaining, reset), store')"
    by (rule check_rate_limit_result)
  have na: "\<not> allowed"
    and s: "st_rate_limit state' = Some (remaining, reset, dict_get RATE_LIMITS (ki_tier key_info) (PInt 100))"
    and g: "rate_limit_store g' = store'"
    and h: "map_of (exc_headers exc) ''X-RateLimit-Reset'' = Some (str_int reset)"
    and d: "detail exc = ''Rate limit exceeded. Resets at '' @ isoformat reset"
    using assms np k v r nd ch by (auto simp: require_api_key_def Let_def split: if_splits)
  have rm: "remaining = PInt 0" using ch na check_rate_limit_denied [of "clk_limit clk" _ _ _ remaining reset store'] by simp
  obtain w where w: "store' ?k = Some w" "reset = py_int (reset_at w)"
    using check_rate_limit_reset [OF ch] by blast
  have "quota_denial clk g state' g' reset"
    using ch na rm w s g by (intro exI [of _ ?k] exI [of _ "ki_tier key_info"] exI [of _ "dict_get RATE_LIMITS (ki_tier key_info) (PInt 100)"] exI [of _ w]) simp
  then show ?thesis using h d by blast
qed

lemma dispatch_rejection_headers:
  assumes "dep state g = (Inl exc, state', g')"
    and "st_rate_limit state' = Some (remaining, reset, lmt)"
  shows "\<exists>resp. fst (dispatch db t0 t1 request (guarded_route dep endpoint) state g table) = Inr resp
           \<and> resp_status resp = status_code exc
           \<and> resp_headers resp ''X-RateLimit-Reset'' = Some (str_int reset)"
  using assms
  by (simp add: dispatch_def guarded_route_def http_exception_response_def Let_def)

text \<open>
  Claim C4. Whenever one of the two dependencies raises a 429, the quota tracker denied
  a key, and the middleware returns for that request a response with status 429 and
  the header \<open>X-RateLimit-Reset\<close> holding the reset time the tracker returned (the
  truncated end of the key's stored window). This covers the 429 of
  \<^verbatim>\<open>require_api_key\<close> and both 429s of \<^verbatim>\<open>optional_api_key\<close>, whose exceptions carry
  no header of their own: the middleware adds it from the request state.
\<close>

theorem rate_limited_response_carries_reset:
  assumes "dep = require_api_key isoformat db clk request api_key
           \<or> dep = optional_api_key db clk request api_key"
    and "dep state g = (Inl exc, state', g')"
    and "status_code exc = 429"
  shows "\<exists>reset resp. quota_denial clk g state' g' reset
     \<and> fst (dispatch db t0 t1 request (guarded_route dep endpoint) state g table) = Inr resp
     \<and> resp_status resp = 429
     \<and> resp_headers resp ''X-RateLimit-Reset'' = Some (str_int reset)"
proof -
  have "\<exists>reset. quota_denial clk g state' g' reset"
  proof (cases "dep = require_api_key isoformat db clk request api_key")
    case True
    then show ?thesis using assms(2,3) require_429 [of isoformat db clk request api_key state g exc state' g']
      by auto
  next
    case False
    then have "dep = optional_api_key db clk request api_key" using assms(1) by simp
    then show ?thesis using assms(2) optional_429 [of db clk request api_key state g exc state' g']
      by auto
  qed
  then obtain reset where q: "quota_denial clk g state' g' reset" ..
  then obtain lmt where l: "st_rate_limit state' = Some (PInt 0, reset, lmt)"
    by auto
  have "\<exists>resp. fst (dispatch db t0 t1 request (guarded_route dep endpoint) state g table) = Inr resp
           \<and> resp_status resp = status_code exc
           \<and> resp_headers resp ''X-RateLimit-Reset'' = Some (str_int reset)"
    using assms(2) l by (rule dispatch_rejection_headers)
  then obtain resp where
    "fst (dispatch db t0 t1 request (guarded_route dep endpoint) state g table) = Inr resp"
    "resp_status resp = 429" "resp_headers resp ''X-RateLimit-Reset'' = Some (str_int reset)"
    using assms(3) by auto
  with q show ?thesis by blast
qed

theorem rate_limited_response_witness:
  "(\<exists>resp. fst (dispatch db_no_rows 1000 1001
       (get_request ''/api/v1/accidents'' [(''X-API-Key'', ''demo-key-free'')])
       (guarded_route
          (require_api_key str_int db_no_rows (clock_at 1000)
             (get_request ''/api/v1/accidents'' [(''X-API-Key'', ''demo-key-free'')])
             (Some ''demo-key-free''))
          ok_endpoint)
       fresh_state (full_window ''demo-key-free'') []) = Inr resp
      \<and> resp_status resp = 429 \<and> resp_headers resp ''X-RateLimit-Reset'' = Some ''4600'')
   \<and> (\<exists>resp. fst (dispatch db_no_rows 1000 1001
       (get_request ''/api/v1/accidents'' [(''X-API-Key'', ''demo-key-free'')])
       (guarded_route
          (optional_api_key db_no_rows (clock_at 1000)
             (get_request ''/api/v1/accidents'' [(''X-API-Key'', ''demo-key-free'')])
             (Some ''demo-key-free''))
          ok_endpoint)
       fresh_state (full_window ''demo-key-free'') []) = Inr resp
      \<and> resp_status resp = 429 \<and> resp_headers resp ''X-RateLimit-Reset'' = Some ''4600'')
   \<and> (\<exists>resp. fst (dispatch db_no_rows 1000 1001
       (get_request ''/api/v1/accidents'' [])
       (guarded_route
          (optional_api_key db_no_rows (clock_at 1000)
             (get_request ''/api/v1/accidents'' []) None)
          ok_endpoint)
       fresh_state (full_window ''anon_10.0.0.1'') []) = Inr resp
      \<and> resp_status resp = 429 \<and> resp_headers resp ''X-RateLimit-Reset'' = Some ''4600'')"
proof -
  let ?keyed = "get_request ''/api/v1/accidents'' [(''X-API-Key'', ''demo-key-free'')]"
  let ?anon = "get_request ''/api/v1/accidents'' []"
  let ?req = "require_api_key str_int db_no_rows (clock_at 1000) ?keyed (Some ''demo-key-free'')"
  let ?opt = "optional_api_key db_no_rows (clock_at 1000) ?keyed (Some ''demo-key-free'')"
  let ?ano = "optional_api_key db_no_rows (clock_at 1000) ?anon None"
  have c: "check_rate_limit 1000 k tier [k0 \<mapsto> \<lparr>count = 100, reset_at = 4600\<rparr>] =
             ((False, PInt 0, reset), st') \<Longrightarrow> reset = 4600" for k k0 tier reset st'
    by (auto simp: check_rate_limit_def store_item_def default_window_def py_int_def Let_def
          RATE_LIMITS_def dict_get_def RATE_LIMIT_WINDOW_def split: if_splits)
  obtain e1 s1 g1 where r1: "?req fresh_state (full_window ''demo-key-free'') = (Inl e1, s1, g1)"
      and c1: "status_code e1 = 429"
    by (simp add: eval_defs example_defs more_defs Let_def)
  obtain e2 s2 g2 where r2: "?opt fresh_state (full_window ''demo-key-free'') = (Inl e2, s2, g2)"
      and c2: "status_code e2 = 429"
    by (simp add: eval_defs example_defs more_defs Let_def)
  obtain e3 s3 g3 where r3: "?ano fresh_state (full_window ''anon_10.0.0.1'') = (Inl e3, s3, g3)"
      and c3: "status_code e3 = 429"
    by (simp add: eval_defs example_defs more_defs Let_def)
  have d1: "?req = require_api_key str_int db_no_rows (clock_at 1000) ?keyed (Some ''demo-key-free'')
            \<or> ?req = optional_api_key db_no_rows (clock_at 1000) ?keyed (Some ''demo-key-free'')"
    by simp
  have d2: "?opt = require_api_key str_int db_no_rows (clock_at 1000) ?keyed (Some ''demo-key-free'')
            \<or> ?opt = optional_api_key db_no_rows (clock_at 1000) ?keyed (Some ''demo-key-free'')"
    by simp
  have d3: "?ano = require_api_key str_int db_no_rows (clock_at 1000) ?anon None
            \<or> ?ano = optional_api_key db_no_rows (clock_at 1000) ?anon None"
    by simp
  have s: "str_int 4600 = ''4600''" by (simp add: str_int_def)
  have a1: "\<exists>resp. fst (dispatch db_no_rows 1000 1001 ?keyed (guarded_route ?req ok_endpoint)
               fresh_state (full_window ''demo-key-free'') []) = Inr resp
             \<and> resp_status resp = 429 \<and> resp_headers resp ''X-RateLimit-Reset'' = Some ''4600''"
    using rate_limited_response_carries_reset [OF d1 r1 c1, of 1000 1001 ok_endpoint "[]"] c s
    by (auto simp: full_window_def clock_at_def)
  have a2: "\<exists>resp. fst (dispatch db_no_rows 1000 1001 ?keyed (guarded_route ?opt ok_endpoint)
               fresh_state (full_window ''demo-key-free'') []) = Inr resp
             \<and> resp_status resp = 429 \<and> resp_headers resp ''X-RateLimit-Reset'' = Some ''4600''"
    using rate_limited_response_carries_reset [OF d2 r2 c2, of 1000 1001 ok_endpoint "[]"] c s
    by (auto simp: full_window_def clock_at_def)
  have a3: "\<exists>resp. fst (dispatch db_no_rows 1000 1001 ?anon (guarded_route ?ano ok_endpoint)
               fresh_state (full_window ''anon_10.0.0.1'') []) = Inr resp
             \<and> resp_status resp = 429 \<and> resp_headers resp ''X-RateLimit-Reset'' = Some ''4600''"
    using rate_limited_response_carries_reset [OF d3 r3 c3, of 1000 1001 ok_endpoint "[]"] c s
    by (auto simp: full_window_def clock_at_def)
  show ?thesis using a1 a2 a3 by blast
qed

lemma require_dashboard_skips_quota:
  assumes "req_headers request ''X-Dashboard'' = Some ''true''"
  shows "rate_limit_store (snd (snd (require_api_key isoformat db clk request api_key state g))) =
           rate_limit_store g
         \<and> (case fst (require_api_key isoformat db clk request api_key state g) of
               Inl exc \<Rightarrow> status_code exc = 401 | Inr key_info \<Rightarrow> True)"
  using assms
  by (auto simp: require_api_key_def Let_def split: prod.splits option.splits)

text \<open>
  Claim C2, on the optional-auth entry point. A request with \<open>X-Dashboard: true\<close> and
  the valid key \<open>demo-key-free\<close> is counted (the window goes from nothing to
  \<open>count = 1\<close>), and with the window at its ceiling it is rejected with a 429.
\<close>

theorem optional_auth_counts_dashboard_requests:
  "rate_limit_store (snd (snd
     (optional_api_key db_no_rows (clock_at 1000)
        (get_request ''/api/v1/accidents''
           [(''X-API-Key'', ''demo-key-free''), (''X-Dashboard'', ''true'')])
        (Some ''demo-key-free'') fresh_state empty_globals))) ''demo-key-free''
     = Some \<lparr>count = 1, reset_at = 4600\<rparr>
   \<and> fst (optional_api_key db_no_rows (clock_at 1000)
        (get_request ''/api/v1/accidents''
           [(''X-API-Key'', ''demo-key-free''), (''X-Dashboard'', ''true'')])
        (Some ''demo-key-free'') fresh_state
        \<lparr>rate_limit_store = [''demo-key-free'' \<mapsto> \<lparr>count = 100, reset_at = 4600\<rparr>],
         api_keys_cache = Map.empty\<rparr>)
     = Inl \<lparr>status_code = 429, detail = ''Rate limit exceeded'', exc_headers = []\<rparr>"
  by (simp add: eval_defs example_defs Let_def)

lemma rate_limit_key_of_user:
  "ki_user_id key_info = Some u \<Longrightarrow> u \<noteq> 0 \<Longrightarrow>
     rate_limit_key_of key_info api_key = ''user_'' @ str_int u"
  by (simp add: rate_limit_key_of_def)

lemma validate_some_nonempty:
  "validate_api_key db tc ts cache k = (Some key_info, cache') \<Longrightarrow> k \<noteq> []"
  by (auto simp: validate_api_key_def)

lemma run_dependency_store_user:
  assumes "quota_applies ep request"
    and "validate_api_key db (clk_cache clk) (clk_store clk) (api_keys_cache g) k = (Some key_info, cache')"
    and "ki_user_id key_info = Some u" and "u \<noteq> 0"
  shows "rate_limit_store (snd (snd (run_dependency ep isoformat db clk request (Some k) state g))) =
           snd (check_rate_limit (clk_limit clk) (''user_'' @ str_int u) (ki_tier key_info)
                  (rate_limit_store g))"
proof -
  have k: "k \<noteq> []" using assms(2) by (rule validate_some_nonempty)
  have key: "rate_limit_key_of key_info k = ''user_'' @ str_int u"
    using assms(3,4) by (rule rate_limit_key_of_user)
  obtain allowed remaining reset store' where
    ch: "check_rate_limit (clk_limit clk) (''user_'' @ str_int u) (ki_tier key_info)
           (rate_limit_store g) = ((allowed, remaining, reset), store')"
    by (rule check_rate_limit_result)
  show ?thesis
  proof (cases ep)
    case Required
    then have "req_path request \<notin> set public_paths"
        "req_headers request ''X-Dashboard'' \<noteq> Some ''true''"
      using assms(1) by (simp_all add: quota_applies_def)
    then show ?thesis using Required k key ch assms(2)
      by (simp add: run_dependency_def require_api_key_def Let_def)
  next
    case Optional
    then show ?thesis using k key ch assms(2)
      by (simp add: run_dependency_def optional_api_key_def Let_def)
  qed
qed

text \<open>
  Claim C3. Take two requests, through either route guard, with any two key strings
  \<open>k1\<close> and \<open>k2\<close> that \<^verbatim>\<open>validate_api_key\<close> resolves to the same user-id \<open>u\<close> (the
  second one resolved after the first request, as after a regeneration of the key).
  The first request is one \<^verbatim>\<open>check_rate_limit\<close> on the key \<open>user_<u>\<close>, and the
  second is one more \<^verbatim>\<open>check_rate_limit\<close> on the same key, starting from the store the
  first one left: the two consume one window, which is neither reset nor duplicated, and
  the key strings play no part. User-ids are the ids the database gives to the rows of
  \<^verbatim>\<open>users\<close> (the \<^verbatim>\<open>INSERT\<close> of \<^verbatim>\<open>routers/users.py\<close> names no id, and the regeneration
  keeps it), so they are not \<open>0\<close>, the one value that the truthiness test of lines 237
  and 272 takes for a missing id.
\<close>

theorem quota_keyed_by_user_id:
  assumes "u \<noteq> 0"
    and "quota_applies ep1 request1" and "quota_applies ep2 request2"
    and "validate_api_key db1 (clk_cache clk1) (clk_store clk1) (api_keys_cache g) k1 =
           (Some key_info1, cache1)"
    and "ki_user_id key_info1 = Some u"
    and "g1 = snd (snd (run_dependency ep1 isoformat db1 clk1 request1 (Some k1) state1 g))"
    and "validate_api_key db2 (clk_cache clk2) (clk_store clk2) (api_keys_cache g1) k2 =
           (Some key_info2, cache2)"
    and "ki_user_id key_info2 = Some u"
  shows "rate_limit_store g1 =
           snd (check_rate_limit (clk_limit clk1) (''user_'' @ str_int u) (ki_tier key_info1)
                  (rate_limit_store g))
         \<and> rate_limit_store
             (snd (snd (run_dependency ep2 isoformat db2 clk2 request2 (Some k2) state2 g1))) =
           snd (check_rate_limit (clk_limit clk2) (''user_'' @ str_int u) (ki_tier key_info2)
                  (snd (check_rate_limit (clk_limit clk1) (''user_'' @ str_int u)
                          (ki_tier key_info1) (rate_limit_store g))))"
proof -
  have first: "rate_limit_store g1 =
      snd (check_rate_limit (clk_limit clk1) (''user_'' @ str_int u) (ki_tier key_info1)
             (rate_limit_store g))"
    unfolding assms(6) using assms(2,4,5,1) by (rule run_dependency_store_user)
  have second: "rate_limit_store
        (snd (snd (run_dependency ep2 isoformat db2 clk2 request2 (Some k2) state2 g1))) =
      snd (check_rate_limit (clk_limit clk2) (''user_'' @ str_int u) (ki_tier key_info2)
             (rate_limit_store g1))"
    using assms(3,7,8,1) by (rule run_dependency_store_user)
  show ?thesis using first second by simp
qed

theorem quota_keyed_by_user_id_witness:
  "rate_limit_store (snd (snd
     (run_dependency Required str_int (db_user 7 ''rsk_new'') (clock_at 1010)
        (get_request ''/api/v1/accidents'' [(''X-API-Key'', ''rsk_new'')])
        (Some ''rsk_new'') fresh_state
        (snd (snd
          (run_dependency Required str_int (db_user 7 ''rsk_old'') (clock_at 1000)
             (get_request ''/api/v1/accidents'' [(''X-API-Key'', ''rsk_old'')])
             (Some ''rsk_old'') fresh_state empty_globals))))))
   = [''user_7'' \<mapsto> \<lparr>count = 2, reset_at = 4600\<rparr>]"
proof -
  let ?r1 = "get_request ''/api/v1/accidents'' [(''X-API-Key'', ''rsk_old'')]"
  let ?r2 = "get_request ''/api/v1/accidents'' [(''X-API-Key'', ''rsk_new'')]"
  let ?ki = "\<lambda>k. \<lparr>ki_key = k, ki_tier = ''free'', ki_name = ''Zed'',
                     ki_active = Some True, ki_user_id = Some 7\<rparr>"
  let ?g1 = "snd (snd (run_dependency Required str_int (db_user 7 ''rsk_old'') (clock_at 1000)
                         ?r1 (Some ''rsk_old'') fresh_state empty_globals))"
  have h0: "(7::int) \<noteq> 0" by simp
  have h1: "quota_applies Required ?r1" "quota_applies Required ?r2"
    by (simp_all add: quota_applies_def get_request_def public_paths_def)
  have c1: "api_keys_cache ?g1 = [''apikey_rsk_old'' \<mapsto> (?ki ''rsk_old'', 1000)]"
    by (simp add: run_dependency_def eval_defs example_defs Let_def)
  have v1: "validate_api_key (db_user 7 ''rsk_old'') (clk_cache (clock_at 1000))
              (clk_store (clock_at 1000)) (api_keys_cache empty_globals) ''rsk_old'' =
            (Some (?ki ''rsk_old''), [''apikey_rsk_old'' \<mapsto> (?ki ''rsk_old'', 1000)])"
    by (simp add: eval_defs example_defs Let_def)
  have v2: "validate_api_key (db_user 7 ''rsk_new'') (clk_cache (clock_at 1010))
              (clk_store (clock_at 1010)) (api_keys_cache ?g1) ''rsk_new'' =
            (Some (?ki ''rsk_new''),
             [''apikey_rsk_old'' \<mapsto> (?ki ''rsk_old'', 1000),
              ''apikey_rsk_new'' \<mapsto> (?ki ''rsk_new'', 1010)])"
    unfolding c1 by (simp add: eval_defs example_defs Let_def)
  have u: "ki_user_id (?ki ''rsk_old'') = Some 7" "ki_user_id (?ki ''rsk_new'') = Some 7"
    by simp_all
  have s: "str_int 7 = ''7''" by (simp add: str_int_def)
  have "rate_limit_store ?g1 =
           snd (check_rate_limit (clk_limit (clock_at 1000)) (''user_'' @ str_int 7)
                  (ki_tier (?ki ''rsk_old'')) (rate_limit_store empty_globals))
         \<and> rate_limit_store
             (snd (snd (run_dependency Required str_int (db_user 7 ''rsk_new'') (clock_at 1010)
                          ?r2 (Some ''rsk_new'') fresh_state ?g1))) =
           snd (check_rate_limit (clk_limit (clock_at 1010)) (''user_'' @ str_int 7)
                  (ki_tier (?ki ''rsk_new''))
                  (snd (check_rate_limit (clk_limit (clock_at 1000)) (''user_'' @ str_int 7)
                          (ki_tier (?ki ''rsk_old'')) (rate_limit_store empty_globals))))"
    by (rule quota_keyed_by_user_id [OF h0 h1 v1 u(1) refl v2 u(2)])
  then show ?thesis using s
    by (simp add: eval_defs example_defs Let_def)
qed

section \<open>Properties of the middleware\<close>




end
